theory Spec2Isabelle
  imports Main
begin

section \<open>JSON documents as Python sees them\<close>

text \<open>
  The two scripts work on whatever \<^verbatim>\<open>json.load\<close> returns: \<^verbatim>\<open>None\<close>, booleans,
  integers, strings, lists and dictionaries. A dictionary keeps its keys in insertion
  order, so it is an association list. Floating point numbers are left out of the model.
\<close>

datatype json =
    JNull
  | JBool bool
  | JInt int
  | JStr string
  | JArr "json list"
  | JObj "(string \<times> json) list"

text \<open>The exceptions the two scripts can raise; none of them is caught.\<close>

datatype error =
    FileNotFoundError
  | IsADirectoryError
  | PermissionError
  | OSError
  | UnicodeDecodeError
  | JSONDecodeError
  | ValueError
  | RecursionError
  | KeyError string
  | TypeError
  | AttributeError

definition and_then :: "error + 'a \<Rightarrow> ('a \<Rightarrow> error + 'b) \<Rightarrow> error + 'b" where
  "and_then r f = (case r of Inl e \<Rightarrow> Inl e | Inr x \<Rightarrow> f x)"

text \<open>\<^verbatim>\<open>obj[key]\<close> with a string key: only a dictionary can be read that way.\<close>

fun getitem :: "json \<Rightarrow> string \<Rightarrow> error + json" where
  "getitem (JObj kvs) k = (case map_of kvs k of None \<Rightarrow> Inl (KeyError k) | Some v \<Rightarrow> Inr v)"
| "getitem _ k = Inl TypeError"

text \<open>\<^verbatim>\<open>d[key] = value\<close> on a dictionary: an existing key keeps its position.\<close>

fun dict_set :: "(string \<times> json) list \<Rightarrow> string \<Rightarrow> json \<Rightarrow> (string \<times> json) list" where
  "dict_set [] k v = [(k, v)]"
| "dict_set ((k', v') # kvs) k v =
     (if k' = k then (k, v) # kvs else (k', v') # dict_set kvs k v)"

fun setitem :: "json \<Rightarrow> string \<Rightarrow> json \<Rightarrow> error + json" where
  "setitem (JObj kvs) k v = Inr (JObj (dict_set kvs k v))"
| "setitem _ k v = Inl TypeError"

text \<open>
  \<^verbatim>\<open>for x in value\<close>: a list yields its elements, a dictionary its keys, a string its
  characters; nothing else is iterable.
\<close>

fun iter_json :: "json \<Rightarrow> error + json list" where
  "iter_json (JArr xs) = Inr xs"
| "iter_json (JObj kvs) = Inr (map (\<lambda>kv. JStr (fst kv)) kvs)"
| "iter_json (JStr s) = Inr (map (\<lambda>c. JStr [c]) s)"
| "iter_json _ = Inl TypeError"

text \<open>
  Keys of a Python dictionary are compared by hash and \<^verbatim>\<open>==\<close>: \<^verbatim>\<open>True\<close> and \<^verbatim>\<open>1\<close> are
  the same key, lists and dictionaries are unhashable.
\<close>

datatype pykey = KNone | KNum int | KStr string

fun hash_key :: "json \<Rightarrow> error + pykey" where
  "hash_key JNull = Inr KNone"
| "hash_key (JBool b) = Inr (KNum (if b then 1 else 0))"
| "hash_key (JInt i) = Inr (KNum i)"
| "hash_key (JStr s) = Inr (KStr s)"
| "hash_key (JArr xs) = Inl TypeError"
| "hash_key (JObj kvs) = Inl TypeError"

definition startswith :: "string \<Rightarrow> string \<Rightarrow> bool" where
  "startswith s p = (take (length p) s = p)"

section \<open>Files and the platform\<close>

text \<open>
  What a path leads to, told apart by what \<^verbatim>\<open>open(filepath, 'r')\<close> and
  \<^verbatim>\<open>json.load\<close> do with it: a directory; a file that may not be read; bytes that
  are not text in the default encoding; text that is not JSON; JSON text with an integer
  literal beyond the digit limit of the interpreter; JSON text nested deeper than the
  parser can follow; JSON text of a document; and what an interrupted write leaves, the
  beginning of a document's text (possibly nothing), which is not JSON. The indentation of written text is not
  modelled; a document that was written completely reads back as the same document.
\<close>

datatype entry =
    Directory
  | Unreadable
  | Undecodable
  | Invalid_JSON
  | Oversized_integer
  | Too_deep
  | Valid_JSON json
  | Partial_JSON

type_synonym path = string
type_synonym fs = "path \<Rightarrow> entry option"

text \<open>
  Writing depends on the platform: \<^verbatim>\<open>open(filepath, 'w')\<close> may be refused (for
  instance with \<^verbatim>\<open>PermissionError\<close>), and \<^verbatim>\<open>json.dump\<close> may raise while it writes
  (\<^verbatim>\<open>RecursionError\<close> for a document nested too deeply, \<^verbatim>\<open>OSError\<close> when the disk is
  full). Each field gives the error raised, if any.
\<close>

record platform =
  open_w :: "path \<Rightarrow> error option"
  json_dump :: "json \<Rightarrow> error option"

text \<open>The platform on which every write goes through.\<close>

definition reliable :: platform where
  "reliable = \<lparr>open_w = (\<lambda>filepath. None), json_dump = (\<lambda>data. None)\<rparr>"

text \<open>\<^verbatim>\<open>with open(filepath, 'r') as f: data = json.load(f)\<close>\<close>

definition load_json :: "path \<Rightarrow> fs \<Rightarrow> error + json" where
  "load_json filepath files =
     (case files filepath of
        None \<Rightarrow> Inl FileNotFoundError
      | Some Directory \<Rightarrow> Inl IsADirectoryError
      | Some Unreadable \<Rightarrow> Inl PermissionError
      | Some Undecodable \<Rightarrow> Inl UnicodeDecodeError
      | Some Invalid_JSON \<Rightarrow> Inl JSONDecodeError
      | Some Oversized_integer \<Rightarrow> Inl ValueError
      | Some Too_deep \<Rightarrow> Inl RecursionError
      | Some (Valid_JSON data) \<Rightarrow> Inr data
      | Some Partial_JSON \<Rightarrow> Inl JSONDecodeError)"

text \<open>
  \<^verbatim>\<open>with open(filepath, 'w') as f: json.dump(data, f, indent=...)\<close>. When the file is
  opened it is emptied at once; the text is then written piece by piece, so an error
  raised by \<^verbatim>\<open>json.dump\<close> leaves the beginning of the text in the file.
\<close>

definition dump_json :: "platform \<Rightarrow> path \<Rightarrow> json \<Rightarrow> fs \<Rightarrow> (error + unit) \<times> fs" where
  "dump_json pf filepath data files =
     (case open_w pf filepath of
        Some e \<Rightarrow> (Inl e, files)
      | None \<Rightarrow>
          (let truncated = files(filepath \<mapsto> Partial_JSON) in
           case json_dump pf data of
             Some e \<Rightarrow> (Inl e, truncated)
           | None \<Rightarrow> (Inr (), truncated(filepath \<mapsto> Valid_JSON data))))"

section \<open>update_capabilities.py\<close>

definition warranty_option_ids :: "string list" where
  "warranty_option_ids =
     [''fap_warranty_tier'', ''fap_warranty_years'', ''fap_standard'', ''fap_gold'',
      ''fap_platinum'']"

text \<open>The list comprehension that drops the records of earlier runs.\<close>

fun filter_capabilities :: "json list \<Rightarrow> error + json list" where
  "filter_capabilities [] = Inr []"
| "filter_capabilities (c # cs) =
     (case getitem c ''option_id'' of
        Inl e \<Rightarrow> Inl e
      | Inr oid \<Rightarrow>
          (case filter_capabilities cs of
             Inl e \<Rightarrow> Inl e
           | Inr rest \<Rightarrow>
               Inr (if oid \<notin> set (map JStr warranty_option_ids) then c # rest else rest)))"

text \<open>
  The loop that fills the dictionary \<^verbatim>\<open>models\<close>; an entry is the key as Python
  compares it, the \<^verbatim>\<open>model_id\<close> as first stored and its label. The label of a record
  is read only when its model is new.
\<close>

type_synonym models = "(pykey \<times> json \<times> json) list"

fun collect_models :: "models \<Rightarrow> json list \<Rightarrow> error + models" where
  "collect_models models [] = Inr models"
| "collect_models models (cap # caps) =
     (case getitem cap ''model_id'' of
        Inl e \<Rightarrow> Inl e
      | Inr model_id \<Rightarrow>
          (case hash_key model_id of
             Inl e \<Rightarrow> Inl e
           | Inr k \<Rightarrow>
               if k \<notin> set (map fst models) then
                 (case getitem cap ''model_label'' of
                    Inl e \<Rightarrow> Inl e
                  | Inr model_label \<Rightarrow>
                      collect_models (models @ [(k, model_id, model_label)]) caps)
               else collect_models models caps))"

text \<open>The four records appended for one model.\<close>

definition fap_caps :: "json \<Rightarrow> json \<Rightarrow> json list" where
  "fap_caps model_id model_label =
     [JObj [(''model_id'', model_id), (''model_label'', model_label),
            (''option_id'', JStr ''fap_standard''), (''raw'', JStr ''yes, no''),
            (''allowed_values'', JArr [JBool True, JBool False])],
      JObj [(''model_id'', model_id), (''model_label'', model_label),
            (''option_id'', JStr ''fap_gold''), (''raw'', JStr ''no, yes''),
            (''allowed_values'', JArr [JBool False, JBool True])],
      JObj [(''model_id'', model_id), (''model_label'', model_label),
            (''option_id'', JStr ''fap_platinum''), (''raw'', JStr ''no, yes''),
            (''allowed_values'', JArr [JBool False, JBool True])],
      JObj [(''model_id'', model_id), (''model_label'', model_label),
            (''option_id'', JStr ''fap_warranty_years''), (''raw'', JStr ''1, 2, 3, 4, 5''),
            (''allowed_values'', JArr [JInt 1, JInt 2, JInt 3, JInt 4, JInt 5])]]"

fun new_caps :: "models \<Rightarrow> json list" where
  "new_caps [] = []"
| "new_caps ((k, model_id, model_label) # models) =
     fap_caps model_id model_label @ new_caps models"

text \<open>The body of \<^verbatim>\<open>update_capabilities\<close> between reading and writing the file.\<close>

definition update_capabilities_data :: "json \<Rightarrow> error + json" where
  "update_capabilities_data data =
     and_then (getitem data ''capabilities'') (\<lambda>old.
     and_then (iter_json old) (\<lambda>cs.
     and_then (filter_capabilities cs) (\<lambda>kept.
     and_then (setitem data ''capabilities'' (JArr kept)) (\<lambda>data1.
     and_then (collect_models [] kept) (\<lambda>models.
     setitem data1 ''capabilities'' (JArr (kept @ new_caps models)))))))"

text \<open>
  The whole function: the result and the files afterwards. The file is opened for
  writing only after the document has been read and changed in memory.
\<close>

definition update_capabilities :: "platform \<Rightarrow> path \<Rightarrow> fs \<Rightarrow> (error + unit) \<times> fs" where
  "update_capabilities pf filepath files =
     (case load_json filepath files of
        Inl e \<Rightarrow> (Inl e, files)
      | Inr data \<Rightarrow>
          (case update_capabilities_data data of
             Inl e \<Rightarrow> (Inl e, files)
           | Inr data' \<Rightarrow> dump_json pf filepath data' files))"

text \<open>The script: both files in turn, then the confirmation line.\<close>

definition capabilities_script :: "platform \<Rightarrow> fs \<Rightarrow> (error + string) \<times> fs" where
  "capabilities_script pf files =
     (case update_capabilities pf ''/home/mixy/configurator/src/logic/capabilities.json''
             files of
        (Inl e, files1) \<Rightarrow> (Inl e, files1)
      | (Inr u, files1) \<Rightarrow>
          (case update_capabilities pf
                  ''/home/mixy/configurator/src/logic/blue_label_capabilities.json'' files1 of
             (Inl e, files2) \<Rightarrow> (Inl e, files2)
           | (Inr u, files2) \<Rightarrow>
               (Inr ''Capabilities updated successfully with separate boolean tiers.'',
                files2)))"

section \<open>update_rules.py\<close>

fun filter_rules :: "json list \<Rightarrow> error + json list" where
  "filter_rules [] = Inr []"
| "filter_rules (r # rs) =
     (case getitem r ''rule_id'' of
        Inl e \<Rightarrow> Inl e
      | Inr (JStr rule_id) \<Rightarrow>
          (case filter_rules rs of
             Inl e \<Rightarrow> Inl e
           | Inr rest \<Rightarrow> Inr (if \<not> startswith rule_id ''fap_'' then r # rest else rest))
      | Inr other \<Rightarrow> Inl AttributeError)"

definition fap_rule :: "string \<Rightarrow> string \<Rightarrow> string \<Rightarrow> json" where
  "fap_rule rule_id when_option excluded_option =
     JObj [(''rule_id'', JStr rule_id),
           (''when'', JObj [(''option_id'', JStr when_option), (''value'', JBool True)]),
           (''effect'', JObj [(''type'', JStr ''exclude''),
                              (''option_id'', JStr excluded_option), (''value'', JBool True)]),
           (''reason'', JStr ''Only one FAP tier allowed.'')]"

definition fap_rules :: "json list" where
  "fap_rules =
     [fap_rule ''fap_gold_excludes_standard'' ''fap_gold'' ''fap_standard'',
      fap_rule ''fap_gold_excludes_platinum'' ''fap_gold'' ''fap_platinum'',
      fap_rule ''fap_platinum_excludes_standard'' ''fap_platinum'' ''fap_standard'',
      fap_rule ''fap_platinum_excludes_gold'' ''fap_platinum'' ''fap_gold'',
      fap_rule ''fap_standard_excludes_gold'' ''fap_standard'' ''fap_gold'',
      fap_rule ''fap_standard_excludes_platinum'' ''fap_standard'' ''fap_platinum'']"

definition add_fap_rules_data :: "json \<Rightarrow> error + json" where
  "add_fap_rules_data data =
     and_then (getitem data ''rules'') (\<lambda>old.
     and_then (iter_json old) (\<lambda>rs.
     and_then (filter_rules rs) (\<lambda>kept.
     and_then (setitem data ''rules'' (JArr kept)) (\<lambda>data1.
     setitem data1 ''rules'' (JArr (kept @ fap_rules))))))"

definition add_fap_rules :: "platform \<Rightarrow> path \<Rightarrow> fs \<Rightarrow> (error + unit) \<times> fs" where
  "add_fap_rules pf filepath files =
     (case load_json filepath files of
        Inl e \<Rightarrow> (Inl e, files)
      | Inr data \<Rightarrow>
          (case add_fap_rules_data data of
             Inl e \<Rightarrow> (Inl e, files)
           | Inr data' \<Rightarrow> dump_json pf filepath data' files))"

definition rules_script :: "platform \<Rightarrow> fs \<Rightarrow> (error + string) \<times> fs" where
  "rules_script pf files =
     (case add_fap_rules pf ''/home/mixy/configurator/src/logic/rules.json'' files of
        (Inl e, files1) \<Rightarrow> (Inl e, files1)
      | (Inr u, files1) \<Rightarrow> (Inr ''Rules updated successfully.'', files1))"

section \<open>Observations used to state the properties\<close>

text \<open>
  What a file holds under its array key, which entries belong to the namespace of a
  script, the dictionary key of a capability's model, and what a rule says.
\<close>

definition capabilities_in :: "fs \<Rightarrow> path \<Rightarrow> json list option" where
  "capabilities_in files filepath =
     (case files filepath of
        Some (Valid_JSON (JObj kvs)) \<Rightarrow>
          (case map_of kvs ''capabilities'' of Some (JArr cs) \<Rightarrow> Some cs | _ \<Rightarrow> None)
      | _ \<Rightarrow> None)"

definition rules_in :: "fs \<Rightarrow> path \<Rightarrow> json list option" where
  "rules_in files filepath =
     (case files filepath of
        Some (Valid_JSON (JObj kvs)) \<Rightarrow>
          (case map_of kvs ''rules'' of Some (JArr rs) \<Rightarrow> Some rs | _ \<Rightarrow> None)
      | _ \<Rightarrow> None)"

definition is_warranty_cap :: "json \<Rightarrow> bool" where
  "is_warranty_cap c =
     (case getitem c ''option_id'' of
        Inr oid \<Rightarrow> oid \<in> set (map JStr warranty_option_ids)
      | Inl e \<Rightarrow> False)"

definition is_fap_rule :: "json \<Rightarrow> bool" where
  "is_fap_rule r =
     (case getitem r ''rule_id'' of
        Inr (JStr rule_id) \<Rightarrow> startswith rule_id ''fap_''
      | _ \<Rightarrow> False)"

definition model_key :: "json \<Rightarrow> pykey option" where
  "model_key c =
     (case getitem c ''model_id'' of
        Inr model_id \<Rightarrow> (case hash_key model_id of Inr k \<Rightarrow> Some k | Inl e \<Rightarrow> None)
      | Inl e \<Rightarrow> None)"

definition tiers :: "string list" where
  "tiers = [''fap_standard'', ''fap_gold'', ''fap_platinum'']"

definition excludes :: "string \<Rightarrow> string \<Rightarrow> json \<Rightarrow> bool" where
  "excludes a b r \<longleftrightarrow>
     and_then (getitem r ''when'') (\<lambda>w. getitem w ''option_id'') = Inr (JStr a) \<and>
     and_then (getitem r ''when'') (\<lambda>w. getitem w ''value'') = Inr (JBool True) \<and>
     and_then (getitem r ''effect'') (\<lambda>e. getitem e ''type'') = Inr (JStr ''exclude'') \<and>
     and_then (getitem r ''effect'') (\<lambda>e. getitem e ''option_id'') = Inr (JStr b) \<and>
     and_then (getitem r ''effect'') (\<lambda>e. getitem e ''value'') = Inr (JBool True)"

section \<open>A worked example\<close>

definition example_cap :: "string \<Rightarrow> string \<Rightarrow> string \<Rightarrow> json" where
  "example_cap model_id model_label option_id =
     JObj [(''model_id'', JStr model_id), (''model_label'', JStr model_label),
           (''option_id'', JStr option_id), (''raw'', JStr ''red, blue''),
           (''allowed_values'', JArr [JStr ''red'', JStr ''blue''])]"

definition example_capabilities :: "json list" where
  "example_capabilities =
     [example_cap ''m1'' ''Model One'' ''color'',
      example_cap ''m1'' ''Model One'' ''fap_warranty_tier'',
      example_cap ''m2'' ''Model Two'' ''color'',
      example_cap ''m1'' ''Model 1'' ''size'']"

definition example_rules :: "json list" where
  "example_rules =
     [JObj [(''rule_id'', JStr ''red_needs_large''),
            (''when'', JObj [(''option_id'', JStr ''color''), (''value'', JStr ''red'')]),
            (''effect'', JObj [(''type'', JStr ''require''), (''option_id'', JStr ''size''),
                               (''value'', JStr ''large'')]),
            (''reason'', JStr ''Red is large only.'')],
      fap_rule ''fap_tier_old'' ''fap_gold'' ''fap_standard'']"

definition example_files :: fs where
  "example_files =
     [''capabilities.json'' \<mapsto>
        Valid_JSON (JObj [(''version'', JInt 1), (''capabilities'', JArr example_capabilities)]),
      ''rules.json'' \<mapsto> Valid_JSON (JObj [(''rules'', JArr example_rules)]),
      ''broken.json'' \<mapsto> Invalid_JSON,
      ''latin1.json'' \<mapsto> Undecodable,
      ''logic'' \<mapsto> Directory]"

text \<open>Two platforms on which writing fails: a full disk and a read-only one.\<close>

definition full_disk :: platform where
  "full_disk = \<lparr>open_w = (\<lambda>filepath. None), json_dump = (\<lambda>data. Some OSError)\<rparr>"

definition read_only :: platform where
  "read_only =
     \<lparr>open_w = (\<lambda>filepath. Some PermissionError), json_dump = (\<lambda>data. None)\<rparr>"

definition example_capabilities_after :: "json list" where
  "example_capabilities_after =
     [example_cap ''m1'' ''Model One'' ''color'',
      example_cap ''m2'' ''Model Two'' ''color'',
      example_cap ''m1'' ''Model 1'' ''size'']
     @ fap_caps (JStr ''m1'') (JStr ''Model One'')
     @ fap_caps (JStr ''m2'') (JStr ''Model Two'')"

definition example_files_after_capabilities :: fs where
  "example_files_after_capabilities =
     example_files(''capabilities.json'' \<mapsto>
        Valid_JSON (JObj [(''version'', JInt 1),
                          (''capabilities'', JArr example_capabilities_after)]))"

definition example_files_after_rules :: fs where
  "example_files_after_rules =
     example_files(''rules.json'' \<mapsto>
        Valid_JSON (JObj [(''rules'', JArr (hd example_rules # fap_rules))]))"

definition superseded_only_files :: fs where
  "superseded_only_files =
     [''capabilities.json'' \<mapsto>
        Valid_JSON (JObj [(''capabilities'',
          JArr [example_cap ''m1'' ''Model One'' ''fap_warranty_tier''])])]"

definition no_option_id_files :: fs where
  "no_option_id_files =
     [''capabilities.json'' \<mapsto>
        Valid_JSON (JObj [(''capabilities'',
          JArr [JObj [(''model_id'', JStr ''m1''), (''model_label'', JStr ''Model One'')]])])]"

section \<open>Auxiliary facts\<close>

subsection \<open>Basic facts\<close>

lemma and_then_Inl [simp]: "and_then (Inl e) f = Inl e"
  by (simp add: and_then_def)

lemma and_then_Inr [simp]: "and_then (Inr x) f = f x"
  by (simp add: and_then_def)

lemma and_then_eq_Inr: "and_then r f = Inr y \<longleftrightarrow> (\<exists>x. r = Inr x \<and> f x = Inr y)"
  by (cases r) simp_all

lemma getitem_eq_Inr: "getitem d k = Inr v \<longleftrightarrow> (\<exists>kvs. d = JObj kvs \<and> map_of kvs k = Some v)"
  by (cases d) (auto split: option.splits)

lemma setitem_eq_Inr:
  "setitem d k v = Inr d' \<longleftrightarrow> (\<exists>kvs. d = JObj kvs \<and> d' = JObj (dict_set kvs k v))"
  by (cases d) auto

lemma map_of_dict_set: "map_of (dict_set kvs k v) = (map_of kvs)(k \<mapsto> v)"
  by (induction kvs k v rule: dict_set.induct) auto

lemma dict_set_twice: "dict_set (dict_set kvs k v) k w = dict_set kvs k w"
  by (induction kvs k v rule: dict_set.induct) auto

subsection \<open>The two filters\<close>

lemma filter_capabilities_eq_Inr:
  "filter_capabilities cs = Inr kept \<longleftrightarrow>
     (\<forall>c\<in>set cs. \<exists>oid. getitem c ''option_id'' = Inr oid) \<and>
     kept = [c\<leftarrow>cs. \<not> is_warranty_cap c]"
proof (induction cs arbitrary: kept)
  case Nil
  show ?case by auto
next
  case (Cons c cs)
  show ?case
  proof (cases "getitem c ''option_id''")
    case (Inl e)
    then show ?thesis by auto
  next
    case (Inr oid)
    show ?thesis
    proof (cases "filter_capabilities cs")
      case (Inl e)
      with Inr Cons.IH show ?thesis by auto
    next
      case rest: (Inr rest)
      with Cons.IH [of rest] Inr show ?thesis
        by (auto simp: is_warranty_cap_def)
    qed
  qed
qed

lemma filter_rules_eq_Inr:
  "filter_rules rs = Inr kept \<longleftrightarrow>
     (\<forall>r\<in>set rs. \<exists>rule_id. getitem r ''rule_id'' = Inr (JStr rule_id)) \<and>
     kept = [r\<leftarrow>rs. \<not> is_fap_rule r]"
proof (induction rs arbitrary: kept)
  case Nil
  show ?case by auto
next
  case (Cons r rs)
  show ?case
  proof (cases "getitem r ''rule_id''")
    case (Inl e)
    then show ?thesis by auto
  next
    case (Inr v)
    show ?thesis
    proof (cases "\<exists>rule_id. v = JStr rule_id")
      case False
      with Inr show ?thesis by (cases v) auto
    next
      case True
      then obtain rule_id where v: "v = JStr rule_id" by blast
      show ?thesis
      proof (cases "filter_rules rs")
        case (Inl e)
        with Inr v Cons.IH show ?thesis by auto
      next
        case rest: (Inr rest)
        with Cons.IH [of rest] Inr v show ?thesis
          by (auto simp: is_fap_rule_def)
      qed
    qed
  qed
qed

lemma is_warranty_cap_fap_caps: "x \<in> set (fap_caps model_id model_label) \<Longrightarrow> is_warranty_cap x"
  by (auto simp: fap_caps_def is_warranty_cap_def warranty_option_ids_def)

lemma set_new_caps:
  "set (new_caps models) = (\<Union>(k, model_id, model_label)\<in>set models. set (fap_caps model_id model_label))"
  by (induction models rule: new_caps.induct) auto

lemma is_warranty_cap_new_caps: "x \<in> set (new_caps models) \<Longrightarrow> is_warranty_cap x"
  by (auto simp: set_new_caps is_warranty_cap_fap_caps)

lemma is_fap_rule_fap_rules: "r \<in> set fap_rules \<Longrightarrow> is_fap_rule r"
  by (auto simp: fap_rules_def fap_rule_def is_fap_rule_def startswith_def)


subsection \<open>What a successful run does\<close>

lemma update_capabilities_data_eq_Inr:
  "update_capabilities_data data = Inr data' \<longleftrightarrow>
     (\<exists>kvs old cs models.
        data = JObj kvs \<and> map_of kvs ''capabilities'' = Some old \<and> iter_json old = Inr cs \<and>
        (\<forall>c\<in>set cs. \<exists>oid. getitem c ''option_id'' = Inr oid) \<and>
        collect_models [] [c\<leftarrow>cs. \<not> is_warranty_cap c] = Inr models \<and>
        data' = JObj (dict_set kvs ''capabilities''
                  (JArr ([c\<leftarrow>cs. \<not> is_warranty_cap c] @ new_caps models))))"
  unfolding update_capabilities_data_def and_then_eq_Inr getitem_eq_Inr setitem_eq_Inr
    filter_capabilities_eq_Inr
  by (auto simp: dict_set_twice)

lemma add_fap_rules_data_eq_Inr:
  "add_fap_rules_data data = Inr data' \<longleftrightarrow>
     (\<exists>kvs old rs.
        data = JObj kvs \<and> map_of kvs ''rules'' = Some old \<and> iter_json old = Inr rs \<and>
        (\<forall>r\<in>set rs. \<exists>rule_id. getitem r ''rule_id'' = Inr (JStr rule_id)) \<and>
        data' = JObj (dict_set kvs ''rules'' (JArr ([r\<leftarrow>rs. \<not> is_fap_rule r] @ fap_rules))))"
  unfolding add_fap_rules_data_def and_then_eq_Inr getitem_eq_Inr setitem_eq_Inr
    filter_rules_eq_Inr
  by (auto simp: dict_set_twice)

lemma dump_json_eq_Inr:
  "dump_json pf filepath data files = (Inr u, files') \<longleftrightarrow>
     open_w pf filepath = None \<and> json_dump pf data = None \<and>
     files' = files(filepath \<mapsto> Valid_JSON data)"
  by (auto simp: dump_json_def Let_def split: option.splits)

lemma load_json_eq_Inr:
  "load_json filepath files = Inr data \<longleftrightarrow> files filepath = Some (Valid_JSON data)"
  by (auto simp: load_json_def split: option.splits entry.splits)

lemma update_capabilities_eq_Inr:
  "update_capabilities pf filepath files = (Inr u, files') \<longleftrightarrow>
     (\<exists>data data'. files filepath = Some (Valid_JSON data) \<and>
        update_capabilities_data data = Inr data' \<and>
        open_w pf filepath = None \<and> json_dump pf data' = None \<and>
        files' = files(filepath \<mapsto> Valid_JSON data'))"
proof (cases "load_json filepath files")
  case (Inl e)
  moreover from Inl have "\<nexists>data. files filepath = Some (Valid_JSON data)"
    by (simp flip: load_json_eq_Inr)
  ultimately show ?thesis by (simp add: update_capabilities_def)
next
  case (Inr data)
  then have "files filepath = Some (Valid_JSON data)"
    by (simp add: load_json_eq_Inr)
  with Inr show ?thesis
    by (cases "update_capabilities_data data")
      (auto simp: update_capabilities_def dump_json_eq_Inr)
qed

lemma add_fap_rules_eq_Inr:
  "add_fap_rules pf filepath files = (Inr u, files') \<longleftrightarrow>
     (\<exists>data data'. files filepath = Some (Valid_JSON data) \<and>
        add_fap_rules_data data = Inr data' \<and>
        open_w pf filepath = None \<and> json_dump pf data' = None \<and>
        files' = files(filepath \<mapsto> Valid_JSON data'))"
proof (cases "load_json filepath files")
  case (Inl e)
  moreover from Inl have "\<nexists>data. files filepath = Some (Valid_JSON data)"
    by (simp flip: load_json_eq_Inr)
  ultimately show ?thesis by (simp add: add_fap_rules_def)
next
  case (Inr data)
  then have "files filepath = Some (Valid_JSON data)"
    by (simp add: load_json_eq_Inr)
  with Inr show ?thesis
    by (cases "add_fap_rules_data data")
      (auto simp: add_fap_rules_def dump_json_eq_Inr)
qed

lemma capabilities_in_eq_Some:
  "capabilities_in files filepath = Some cs \<longleftrightarrow>
     (\<exists>kvs. files filepath = Some (Valid_JSON (JObj kvs)) \<and>
        map_of kvs ''capabilities'' = Some (JArr cs))"
  by (auto simp: capabilities_in_def
      split: option.splits entry.splits json.splits)

lemma rules_in_eq_Some:
  "rules_in files filepath = Some rs \<longleftrightarrow>
     (\<exists>kvs. files filepath = Some (Valid_JSON (JObj kvs)) \<and>
        map_of kvs ''rules'' = Some (JArr rs))"
  by (auto simp: rules_in_def split: option.splits entry.splits json.splits)

lemma update_capabilities_run:
  assumes "update_capabilities pf filepath files = (Inr u, files')"
    and "capabilities_in files filepath = Some cs"
  shows "\<exists>models.
           (\<forall>c\<in>set cs. \<exists>oid. getitem c ''option_id'' = Inr oid) \<and>
           collect_models [] [c\<leftarrow>cs. \<not> is_warranty_cap c] = Inr models \<and>
           capabilities_in files' filepath =
             Some ([c\<leftarrow>cs. \<not> is_warranty_cap c] @ new_caps models)"
  using assms
  unfolding update_capabilities_eq_Inr update_capabilities_data_eq_Inr capabilities_in_eq_Some
  by (auto simp: map_of_dict_set)

lemma add_fap_rules_run:
  assumes "add_fap_rules pf filepath files = (Inr u, files')"
    and "rules_in files filepath = Some rs"
  shows "(\<forall>r\<in>set rs. \<exists>rule_id. getitem r ''rule_id'' = Inr (JStr rule_id)) \<and>
         rules_in files' filepath = Some ([r\<leftarrow>rs. \<not> is_fap_rule r] @ fap_rules)"
  using assms
  unfolding add_fap_rules_eq_Inr add_fap_rules_data_eq_Inr rules_in_eq_Some
  by (auto simp: map_of_dict_set)

subsection \<open>Running again\<close>

lemma filter_not_warranty_new_caps: "[c\<leftarrow>new_caps models. \<not> is_warranty_cap c] = []"
  by (simp add: filter_empty_conv is_warranty_cap_new_caps)

lemma filter_not_fap_rules: "[r\<leftarrow>fap_rules. \<not> is_fap_rule r] = []"
  by (simp add: filter_empty_conv is_fap_rule_fap_rules)

lemma has_option_id_new_caps:
  "x \<in> set (new_caps models) \<Longrightarrow> \<exists>oid. getitem x ''option_id'' = Inr oid"
  using is_warranty_cap_new_caps [of x models]
  by (cases "getitem x ''option_id''") (simp_all add: is_warranty_cap_def)

lemma has_rule_id_fap_rules:
  "r \<in> set fap_rules \<Longrightarrow> \<exists>rule_id. getitem r ''rule_id'' = Inr (JStr rule_id)"
  by (auto simp: fap_rules_def fap_rule_def)

lemma update_capabilities_data_again:
  assumes "update_capabilities_data data = Inr data'"
  shows "update_capabilities_data data' = Inr data'"
proof -
  from assms obtain kvs cs models where
    cs: "\<forall>c\<in>set cs. \<exists>oid. getitem c ''option_id'' = Inr oid" and
    models: "collect_models [] [c\<leftarrow>cs. \<not> is_warranty_cap c] = Inr models" and
    data': "data' = JObj (dict_set kvs ''capabilities''
              (JArr ([c\<leftarrow>cs. \<not> is_warranty_cap c] @ new_caps models)))"
    unfolding update_capabilities_data_eq_Inr by blast
  let ?kept = "[c\<leftarrow>cs. \<not> is_warranty_cap c]"
  let ?out = "?kept @ new_caps models"
  have "\<forall>c\<in>set ?out. \<exists>oid. getitem c ''option_id'' = Inr oid"
    using cs has_option_id_new_caps by auto
  moreover have "[c\<leftarrow>?out. \<not> is_warranty_cap c] = ?kept"
    by (simp add: filter_not_warranty_new_caps)
  ultimately show ?thesis
    unfolding update_capabilities_data_eq_Inr data'
    using models by (auto simp: map_of_dict_set dict_set_twice)
qed

lemma add_fap_rules_data_again:
  assumes "add_fap_rules_data data = Inr data'"
  shows "add_fap_rules_data data' = Inr data'"
proof -
  from assms obtain kvs rs where
    rs: "\<forall>r\<in>set rs. \<exists>rule_id. getitem r ''rule_id'' = Inr (JStr rule_id)" and
    data': "data' = JObj (dict_set kvs ''rules'' (JArr ([r\<leftarrow>rs. \<not> is_fap_rule r] @ fap_rules)))"
    unfolding add_fap_rules_data_eq_Inr by blast
  let ?kept = "[r\<leftarrow>rs. \<not> is_fap_rule r]"
  let ?out = "?kept @ fap_rules"
  have "\<forall>r\<in>set ?out. \<exists>rule_id. getitem r ''rule_id'' = Inr (JStr rule_id)"
    using rs has_rule_id_fap_rules by auto
  moreover have "[r\<leftarrow>?out. \<not> is_fap_rule r] = ?kept"
    by (simp add: filter_not_fap_rules)
  ultimately show ?thesis
    unfolding add_fap_rules_data_eq_Inr data'
    by (auto simp: map_of_dict_set dict_set_twice)
qed

text \<open>
  Claim C1. When a run of the capability injector on a file completes, a second run on
  the same file and platform completes too and leaves every file as the first run left
  it: the \<^verbatim>\<open>capabilities\<close> array after the second run is the array after the
  first, with nothing doubled.
\<close>

theorem update_capabilities_idempotent:
  assumes "update_capabilities pf filepath files = (Inr (), files1)"
  shows "update_capabilities pf filepath files1 = (Inr (), files1)"
proof -
  from assms obtain data data' where
    "update_capabilities_data data = Inr data'" and
    platform: "open_w pf filepath = None" "json_dump pf data' = None" and
    files1: "files1 = files(filepath \<mapsto> Valid_JSON data')"
    unfolding update_capabilities_eq_Inr by blast
  then have "update_capabilities_data data' = Inr data'"
    by (simp add: update_capabilities_data_again)
  with files1 platform show ?thesis
    unfolding update_capabilities_eq_Inr by auto
qed

text \<open>
  Claim C2. When a run of the rule injector on a file completes, a second run on the same
  file and platform completes too and leaves every file as the first run left it: the
  \<^verbatim>\<open>rules\<close> array after the second run is the array after the first.
\<close>

theorem add_fap_rules_idempotent:
  assumes "add_fap_rules pf filepath files = (Inr (), files1)"
  shows "add_fap_rules pf filepath files1 = (Inr (), files1)"
proof -
  from assms obtain data data' where
    "add_fap_rules_data data = Inr data'" and
    platform: "open_w pf filepath = None" "json_dump pf data' = None" and
    files1: "files1 = files(filepath \<mapsto> Valid_JSON data')"
    unfolding add_fap_rules_eq_Inr by blast
  then have "add_fap_rules_data data' = Inr data'"
    by (simp add: add_fap_rules_data_again)
  with files1 platform show ?thesis
    unfolding add_fap_rules_eq_Inr by auto
qed


subsection \<open>The dictionary of models\<close>

lemma model_key_eq_Some:
  "model_key c = Some k \<longleftrightarrow>
     (\<exists>model_id. getitem c ''model_id'' = Inr model_id \<and> hash_key model_id = Inr k)"
  by (auto simp: model_key_def split: sum.splits)

lemma collect_models_keys:
  "collect_models acc caps = Inr models \<Longrightarrow>
     (\<forall>c\<in>set caps. \<exists>k. model_key c = Some k) \<and>
     set (map fst models) = set (map fst acc) \<union> {k. \<exists>c\<in>set caps. model_key c = Some k}"
proof (induction acc caps rule: collect_models.induct)
  case (1 acc)
  then show ?case by simp
next
  case (2 acc cap caps)
  from "2.prems" obtain model_id k where
    mid: "getitem cap ''model_id'' = Inr model_id" and k: "hash_key model_id = Inr k"
    by (auto split: sum.splits)
  then have key: "model_key cap = Some k"
    by (simp add: model_key_eq_Some)
  show ?case
  proof (cases "k \<in> set (map fst acc)")
    case True
    with "2.prems" mid k have "collect_models acc caps = Inr models" by simp
    with "2.IH"(2) [OF mid k] True key show ?thesis by auto
  next
    case False
    with "2.prems" mid k obtain model_label where
      lbl: "getitem cap ''model_label'' = Inr model_label" and
      rest: "collect_models (acc @ [(k, model_id, model_label)]) caps = Inr models"
      by (auto split: sum.splits)
    from "2.IH"(1) [OF mid k False lbl rest] key show ?thesis by auto
  qed
qed

lemma collect_models_distinct:
  "collect_models acc caps = Inr models \<Longrightarrow> distinct (map fst acc) \<Longrightarrow>
     distinct (map fst models)"
proof (induction acc caps rule: collect_models.induct)
  case (1 acc)
  then show ?case by simp
next
  case (2 acc cap caps)
  from "2.prems" obtain model_id k where
    mid: "getitem cap ''model_id'' = Inr model_id" and k: "hash_key model_id = Inr k"
    by (auto split: sum.splits)
  show ?case
  proof (cases "k \<in> set (map fst acc)")
    case True
    with "2.prems" mid k have "collect_models acc caps = Inr models" by simp
    with "2.IH"(2) [OF mid k] True "2.prems"(2) show ?thesis by simp
  next
    case False
    with "2.prems" mid k obtain model_label where
      lbl: "getitem cap ''model_label'' = Inr model_label" and
      rest: "collect_models (acc @ [(k, model_id, model_label)]) caps = Inr models"
      by (auto split: sum.splits)
    from False "2.prems"(2) have "distinct (map fst (acc @ [(k, model_id, model_label)]))"
      by simp
    with "2.IH"(1) [OF mid k False lbl rest] show ?thesis by simp
  qed
qed

lemma collect_models_hash:
  "collect_models acc caps = Inr models \<Longrightarrow>
     (\<forall>(k, model_id, model_label)\<in>set acc. hash_key model_id = Inr k) \<Longrightarrow>
     (\<forall>(k, model_id, model_label)\<in>set models. hash_key model_id = Inr k)"
proof (induction acc caps rule: collect_models.induct)
  case (1 acc)
  then show ?case by simp
next
  case (2 acc cap caps)
  from "2.prems" obtain model_id k where
    mid: "getitem cap ''model_id'' = Inr model_id" and k: "hash_key model_id = Inr k"
    by (auto split: sum.splits)
  show ?case
  proof (cases "k \<in> set (map fst acc)")
    case True
    with "2.prems" mid k have "collect_models acc caps = Inr models" by simp
    with "2.IH"(2) [OF mid k] True "2.prems"(2) show ?thesis by simp
  next
    case False
    with "2.prems" mid k obtain model_label where
      lbl: "getitem cap ''model_label'' = Inr model_label" and
      rest: "collect_models (acc @ [(k, model_id, model_label)]) caps = Inr models"
      by (auto split: sum.splits)
    from k "2.prems"(2)
    have "\<forall>(k, model_id, model_label)\<in>set (acc @ [(k, model_id, model_label)]).
            hash_key model_id = Inr k"
      by auto
    with "2.IH"(1) [OF mid k False lbl rest] show ?thesis by simp
  qed
qed

lemma collect_models_first:
  "collect_models acc caps = Inr models \<Longrightarrow> (k, model_id, model_label) \<in> set models \<Longrightarrow>
     (k, model_id, model_label) \<in> set acc \<or>
     (k \<notin> set (map fst acc) \<and>
      (\<exists>c. find (\<lambda>c. model_key c = Some k) caps = Some c \<and>
           getitem c ''model_id'' = Inr model_id \<and>
           getitem c ''model_label'' = Inr model_label))"
proof (induction acc caps rule: collect_models.induct)
  case (1 acc)
  then show ?case by simp
next
  case (2 acc cap caps)
  from "2.prems" obtain mid0 k0 where
    mid: "getitem cap ''model_id'' = Inr mid0" and k0: "hash_key mid0 = Inr k0"
    by (auto split: sum.splits)
  then have key: "model_key cap = Some k0"
    by (simp add: model_key_eq_Some)
  show ?case
  proof (cases "k0 \<in> set (map fst acc)")
    case True
    with "2.prems" mid k0 have "collect_models acc caps = Inr models" by simp
    from "2.IH"(2) [OF mid k0 _ this "2.prems"(2)] True key show ?thesis by auto
  next
    case False
    with "2.prems" mid k0 obtain lbl0 where
      lbl: "getitem cap ''model_label'' = Inr lbl0" and
      rest: "collect_models (acc @ [(k0, mid0, lbl0)]) caps = Inr models"
      by (auto split: sum.splits)
    from "2.IH"(1) [OF mid k0 False lbl rest "2.prems"(2)] False key mid lbl
    show ?thesis by auto
  qed
qed

subsection \<open>The appended records\<close>

lemma filter_fap_caps_key:
  "hash_key model_id = Inr k' \<Longrightarrow>
     [x\<leftarrow>fap_caps model_id model_label. model_key x = Some k] =
       (if k' = k then fap_caps model_id model_label else [])"
  by (simp add: fap_caps_def model_key_def)

lemma filter_new_caps_other:
  "\<forall>(k', model_id, model_label)\<in>set models. hash_key model_id = Inr k' \<Longrightarrow>
     k \<notin> set (map fst models) \<Longrightarrow> [x\<leftarrow>new_caps models. model_key x = Some k] = []"
  by (induction models rule: new_caps.induct) (auto simp: filter_fap_caps_key)

lemma filter_new_caps_key:
  "\<forall>(k', model_id, model_label)\<in>set models. hash_key model_id = Inr k' \<Longrightarrow>
     distinct (map fst models) \<Longrightarrow> (k, model_id, model_label) \<in> set models \<Longrightarrow>
     [x\<leftarrow>new_caps models. model_key x = Some k] = fap_caps model_id model_label"
proof (induction models rule: new_caps.induct)
  case 1
  then show ?case by simp
next
  case (2 k' mid' lbl' models)
  from "2.prems"(1) have h: "hash_key mid' = Inr k'" by simp
  show ?case
  proof (cases "(k, model_id, model_label) = (k', mid', lbl')")
    case True
    with "2.prems"(2) have "k \<notin> set (map fst models)" by simp
    with "2.prems"(1) have "[x\<leftarrow>new_caps models. model_key x = Some k] = []"
      by (simp add: filter_new_caps_other)
    with True h show ?thesis by (simp add: filter_fap_caps_key)
  next
    case False
    with "2.prems"(3) have mem: "(k, model_id, model_label) \<in> set models" by auto
    with "2.prems"(2) have "k' \<noteq> k" by (auto simp: image_iff)
    with "2.IH" "2.prems" mem h show ?thesis by (simp add: filter_fap_caps_key)
  qed
qed

lemma new_caps_of_model:
  assumes models: "collect_models [] kept = Inr models"
    and c: "c \<in> set kept"
  shows "\<exists>k first model_id model_label.
           model_key c = Some k \<and>
           find (\<lambda>c. model_key c = Some k) kept = Some first \<and>
           getitem first ''model_id'' = Inr model_id \<and>
           getitem first ''model_label'' = Inr model_label \<and>
           [x\<leftarrow>new_caps models. model_key x = Some k] = fap_caps model_id model_label"
proof -
  from collect_models_keys [OF models] c obtain k where key: "model_key c = Some k"
    by blast
  with collect_models_keys [OF models] c have "k \<in> set (map fst models)"
    by blast
  then obtain model_id model_label where mem: "(k, model_id, model_label) \<in> set models"
    by auto
  from collect_models_first [OF models mem] obtain first where
    "find (\<lambda>c. model_key c = Some k) kept = Some first"
    "getitem first ''model_id'' = Inr model_id"
    "getitem first ''model_label'' = Inr model_label"
    by auto
  moreover have "[x\<leftarrow>new_caps models. model_key x = Some k] = fap_caps model_id model_label"
    using collect_models_hash [OF models] collect_models_distinct [OF models] mem
    by (intro filter_new_caps_key) auto
  ultimately show ?thesis using key by blast
qed

subsection \<open>The example, evaluated\<close>

lemma example_capabilities_run:
  "update_capabilities reliable ''capabilities.json'' example_files =
     (Inr (), example_files_after_capabilities)"
  by (simp add: update_capabilities_def load_json_def dump_json_def reliable_def
      example_files_def update_capabilities_data_def example_capabilities_def example_cap_def
      warranty_option_ids_def example_files_after_capabilities_def
      example_capabilities_after_def)

lemma example_rules_run:
  "add_fap_rules reliable ''rules.json'' example_files = (Inr (), example_files_after_rules)"
  by (simp add: add_fap_rules_def load_json_def dump_json_def reliable_def example_files_def
      add_fap_rules_data_def example_rules_def fap_rule_def startswith_def
      example_files_after_rules_def)

lemma example_capabilities_in:
  "capabilities_in example_files ''capabilities.json'' = Some example_capabilities"
  by (simp add: capabilities_in_def example_files_def)

lemma example_rules_in: "rules_in example_files ''rules.json'' = Some example_rules"
  by (simp add: rules_in_def example_files_def)

section \<open>The properties\<close>

lemma update_capabilities_run_any:
  assumes "update_capabilities pf filepath files = (Inr u, files')"
  shows "\<exists>cs models.
           (\<forall>c\<in>set cs. \<exists>oid. getitem c ''option_id'' = Inr oid) \<and>
           collect_models [] [c\<leftarrow>cs. \<not> is_warranty_cap c] = Inr models \<and>
           capabilities_in files' filepath =
             Some ([c\<leftarrow>cs. \<not> is_warranty_cap c] @ new_caps models)"
  using assms
  unfolding update_capabilities_eq_Inr update_capabilities_data_eq_Inr capabilities_in_eq_Some
  by (auto simp: map_of_dict_set)

lemma fap_caps_cases:
  assumes "x \<in> set (new_caps models)"
  shows "getitem x ''option_id'' = Inr (JStr ''fap_standard'') \<and>
           getitem x ''allowed_values'' = Inr (JArr [JBool True, JBool False]) \<or>
         getitem x ''option_id'' = Inr (JStr ''fap_gold'') \<and>
           getitem x ''allowed_values'' = Inr (JArr [JBool False, JBool True]) \<or>
         getitem x ''option_id'' = Inr (JStr ''fap_platinum'') \<and>
           getitem x ''allowed_values'' = Inr (JArr [JBool False, JBool True]) \<or>
         getitem x ''option_id'' = Inr (JStr ''fap_warranty_years'') \<and>
           getitem x ''allowed_values'' = Inr (JArr [JInt 1, JInt 2, JInt 3, JInt 4, JInt 5])"
proof -
  from assms obtain model_id model_label where "x \<in> set (fap_caps model_id model_label)"
    by (auto simp: set_new_caps)
  then show ?thesis
    by (auto simp: fap_caps_def)
qed

text \<open>
  Claim C3, amended. After a completed run, for every capability \<open>c\<close> of the input array
  that remains after the warranty-tier filter, the appended records whose \<^verbatim>\<open>model_id\<close>
  is the same dictionary key as that of \<open>c\<close> are exactly four, with the option ids
  fap_standard, fap_gold, fap_platinum and fap_warranty_years, in that order.
\<close>

theorem four_records_per_remaining_model:
  assumes "update_capabilities pf filepath files = (Inr (), files')"
    and "capabilities_in files filepath = Some cs"
    and "c \<in> set cs" and "\<not> is_warranty_cap c"
  shows "\<exists>k new.
           model_key c = Some k \<and>
           capabilities_in files' filepath = Some ([c\<leftarrow>cs. \<not> is_warranty_cap c] @ new) \<and>
           map (\<lambda>x. getitem x ''option_id'') [x\<leftarrow>new. model_key x = Some k] =
             [Inr (JStr ''fap_standard''), Inr (JStr ''fap_gold''),
              Inr (JStr ''fap_platinum''), Inr (JStr ''fap_warranty_years'')]"
proof -
  let ?kept = "[c\<leftarrow>cs. \<not> is_warranty_cap c]"
  from update_capabilities_run [OF assms(1,2)] obtain models where
    models: "collect_models [] ?kept = Inr models" and
    out: "capabilities_in files' filepath = Some (?kept @ new_caps models)"
    by blast
  from assms(3,4) have "c \<in> set ?kept" by simp
  from new_caps_of_model [OF models this] obtain k model_id model_label where
    "model_key c = Some k"
    "[x\<leftarrow>new_caps models. model_key x = Some k] = fap_caps model_id model_label"
    by blast
  moreover have "map (\<lambda>x. getitem x ''option_id'') (fap_caps model_id model_label) =
      [Inr (JStr ''fap_standard''), Inr (JStr ''fap_gold''),
       Inr (JStr ''fap_platinum''), Inr (JStr ''fap_warranty_years'')]"
    by (simp add: fap_caps_def)
  ultimately show ?thesis using out by auto
qed

theorem four_records_per_remaining_model_witness:
  "update_capabilities reliable ''capabilities.json'' example_files =
     (Inr (), example_files_after_capabilities) \<and>
   capabilities_in example_files ''capabilities.json'' = Some example_capabilities \<and>
   example_cap ''m2'' ''Model Two'' ''color'' \<in> set example_capabilities \<and>
   \<not> is_warranty_cap (example_cap ''m2'' ''Model Two'' ''color'') \<and>
   (\<exists>k new.
      model_key (example_cap ''m2'' ''Model Two'' ''color'') = Some k \<and>
      capabilities_in example_files_after_capabilities ''capabilities.json'' =
        Some ([c\<leftarrow>example_capabilities. \<not> is_warranty_cap c] @ new) \<and>
      map (\<lambda>x. getitem x ''option_id'') [x\<leftarrow>new. model_key x = Some k] =
        [Inr (JStr ''fap_standard''), Inr (JStr ''fap_gold''),
         Inr (JStr ''fap_platinum''), Inr (JStr ''fap_warranty_years'')])"
proof -
  have mem: "example_cap ''m2'' ''Model Two'' ''color'' \<in> set example_capabilities"
    by (simp add: example_capabilities_def)
  have unrelated: "\<not> is_warranty_cap (example_cap ''m2'' ''Model Two'' ''color'')"
    by (simp add: is_warranty_cap_def example_cap_def warranty_option_ids_def)
  from four_records_per_remaining_model
    [OF example_capabilities_run example_capabilities_in mem unrelated]
  show ?thesis
    using example_capabilities_run example_capabilities_in mem unrelated by blast
qed

text \<open>
  Claim C3 as stated fails: the model \<^verbatim>\<open>m1\<close> is present in the input array, but only
  on a record of the superseded option; the run completes and the output array is empty,
  so no record is appended for \<^verbatim>\<open>m1\<close>.
\<close>

theorem superseded_only_model_gets_no_records:
  "capabilities_in superseded_only_files ''capabilities.json'' =
     Some [example_cap ''m1'' ''Model One'' ''fap_warranty_tier''] \<and>
   getitem (example_cap ''m1'' ''Model One'' ''fap_warranty_tier'') ''model_id'' =
     Inr (JStr ''m1'') \<and>
   fst (update_capabilities reliable ''capabilities.json'' superseded_only_files) = Inr () \<and>
   capabilities_in
     (snd (update_capabilities reliable ''capabilities.json'' superseded_only_files))
     ''capabilities.json'' = Some []"
  by (simp add: capabilities_in_def superseded_only_files_def update_capabilities_def
      load_json_def dump_json_def reliable_def update_capabilities_data_def example_cap_def
      warranty_option_ids_def)

text \<open>
  Claim C5. After a completed run of the capability injector, the records appended for the
  model of any capability that remains after the filter are four, and their option ids
  and \<^verbatim>\<open>allowed_values\<close> are, in this order, fap_standard with [true, false],
  fap_gold with [false, true], fap_platinum with [false, true] and fap_warranty_years
  with [1, 2, 3, 4, 5]; every appended record is of one of these four kinds.
\<close>

theorem appended_allowed_values:
  assumes "update_capabilities pf filepath files = (Inr (), files')"
    and "capabilities_in files filepath = Some cs"
  shows "\<exists>new.
           capabilities_in files' filepath = Some ([c\<leftarrow>cs. \<not> is_warranty_cap c] @ new) \<and>
           (\<forall>c\<in>set [c\<leftarrow>cs. \<not> is_warranty_cap c]. \<exists>k.
              model_key c = Some k \<and>
              map (\<lambda>x. (getitem x ''option_id'', getitem x ''allowed_values''))
                  [x\<leftarrow>new. model_key x = Some k] =
                [(Inr (JStr ''fap_standard''), Inr (JArr [JBool True, JBool False])),
                 (Inr (JStr ''fap_gold''), Inr (JArr [JBool False, JBool True])),
                 (Inr (JStr ''fap_platinum''), Inr (JArr [JBool False, JBool True])),
                 (Inr (JStr ''fap_warranty_years''),
                  Inr (JArr [JInt 1, JInt 2, JInt 3, JInt 4, JInt 5]))]) \<and>
           (\<forall>x\<in>set new.
              getitem x ''option_id'' = Inr (JStr ''fap_standard'') \<and>
                getitem x ''allowed_values'' = Inr (JArr [JBool True, JBool False]) \<or>
              getitem x ''option_id'' = Inr (JStr ''fap_gold'') \<and>
                getitem x ''allowed_values'' = Inr (JArr [JBool False, JBool True]) \<or>
              getitem x ''option_id'' = Inr (JStr ''fap_platinum'') \<and>
                getitem x ''allowed_values'' = Inr (JArr [JBool False, JBool True]) \<or>
              getitem x ''option_id'' = Inr (JStr ''fap_warranty_years'') \<and>
                getitem x ''allowed_values'' =
                  Inr (JArr [JInt 1, JInt 2, JInt 3, JInt 4, JInt 5]))"
proof -
  let ?kept = "[c\<leftarrow>cs. \<not> is_warranty_cap c]"
  from update_capabilities_run [OF assms] obtain models where
    models: "collect_models [] ?kept = Inr models" and
    out: "capabilities_in files' filepath = Some (?kept @ new_caps models)"
    by blast
  have "\<exists>k. model_key c = Some k \<and>
          map (\<lambda>x. (getitem x ''option_id'', getitem x ''allowed_values''))
              [x\<leftarrow>new_caps models. model_key x = Some k] =
            [(Inr (JStr ''fap_standard''), Inr (JArr [JBool True, JBool False])),
                 (Inr (JStr ''fap_gold''), Inr (JArr [JBool False, JBool True])),
                 (Inr (JStr ''fap_platinum''), Inr (JArr [JBool False, JBool True])),
                 (Inr (JStr ''fap_warranty_years''),
                  Inr (JArr [JInt 1, JInt 2, JInt 3, JInt 4, JInt 5]))]"
    if "c \<in> set ?kept" for c
  proof -
    from new_caps_of_model [OF models that] obtain k model_id model_label where
      "model_key c = Some k"
      "[x\<leftarrow>new_caps models. model_key x = Some k] = fap_caps model_id model_label"
      by blast
    then show ?thesis
      by (simp add: fap_caps_def)
  qed
  then have each: "\<forall>c\<in>set ?kept. \<exists>k. model_key c = Some k \<and>
      map (\<lambda>x. (getitem x ''option_id'', getitem x ''allowed_values''))
          [x\<leftarrow>new_caps models. model_key x = Some k] =
        [(Inr (JStr ''fap_standard''), Inr (JArr [JBool True, JBool False])),
                 (Inr (JStr ''fap_gold''), Inr (JArr [JBool False, JBool True])),
                 (Inr (JStr ''fap_platinum''), Inr (JArr [JBool False, JBool True])),
                 (Inr (JStr ''fap_warranty_years''),
                  Inr (JArr [JInt 1, JInt 2, JInt 3, JInt 4, JInt 5]))]"
    by (rule ballI)
  show ?thesis
  proof (intro exI [of _ "new_caps models"] conjI)
    show "capabilities_in files' filepath = Some (?kept @ new_caps models)"
      by (rule out)
    show "\<forall>c\<in>set ?kept. \<exists>k. model_key c = Some k \<and>
        map (\<lambda>x. (getitem x ''option_id'', getitem x ''allowed_values''))
            [x\<leftarrow>new_caps models. model_key x = Some k] =
          [(Inr (JStr ''fap_standard''), Inr (JArr [JBool True, JBool False])),
                 (Inr (JStr ''fap_gold''), Inr (JArr [JBool False, JBool True])),
                 (Inr (JStr ''fap_platinum''), Inr (JArr [JBool False, JBool True])),
                 (Inr (JStr ''fap_warranty_years''),
                  Inr (JArr [JInt 1, JInt 2, JInt 3, JInt 4, JInt 5]))]"
      by (rule each)
    show "\<forall>x\<in>set (new_caps models).
        getitem x ''option_id'' = Inr (JStr ''fap_standard'') \<and>
                getitem x ''allowed_values'' = Inr (JArr [JBool True, JBool False]) \<or>
              getitem x ''option_id'' = Inr (JStr ''fap_gold'') \<and>
                getitem x ''allowed_values'' = Inr (JArr [JBool False, JBool True]) \<or>
              getitem x ''option_id'' = Inr (JStr ''fap_platinum'') \<and>
                getitem x ''allowed_values'' = Inr (JArr [JBool False, JBool True]) \<or>
              getitem x ''option_id'' = Inr (JStr ''fap_warranty_years'') \<and>
                getitem x ''allowed_values'' =
                  Inr (JArr [JInt 1, JInt 2, JInt 3, JInt 4, JInt 5])"
      by (rule ballI) (rule fap_caps_cases)
  qed
qed

theorem appended_allowed_values_witness:
  "update_capabilities reliable ''capabilities.json'' example_files =
     (Inr (), example_files_after_capabilities) \<and>
   capabilities_in example_files ''capabilities.json'' = Some example_capabilities \<and>
   example_cap ''m2'' ''Model Two'' ''color'' \<in>
     set [c\<leftarrow>example_capabilities. \<not> is_warranty_cap c] \<and>
   (\<exists>new.
      capabilities_in example_files_after_capabilities ''capabilities.json'' =
        Some ([c\<leftarrow>example_capabilities. \<not> is_warranty_cap c] @ new) \<and>
      map (\<lambda>x. (getitem x ''option_id'', getitem x ''allowed_values''))
          [x\<leftarrow>new. model_key x = Some (KStr ''m2'')] =
        [(Inr (JStr ''fap_standard''), Inr (JArr [JBool True, JBool False])),
                 (Inr (JStr ''fap_gold''), Inr (JArr [JBool False, JBool True])),
                 (Inr (JStr ''fap_platinum''), Inr (JArr [JBool False, JBool True])),
                 (Inr (JStr ''fap_warranty_years''),
                  Inr (JArr [JInt 1, JInt 2, JInt 3, JInt 4, JInt 5]))])"
proof -
  let ?c = "example_cap ''m2'' ''Model Two'' ''color''"
  let ?kept = "[c\<leftarrow>example_capabilities. \<not> is_warranty_cap c]"
  have mem: "?c \<in> set ?kept"
    by (simp add: example_capabilities_def is_warranty_cap_def example_cap_def
        warranty_option_ids_def)
  have key: "model_key ?c = Some (KStr ''m2'')"
    by (simp add: model_key_def example_cap_def)
  from appended_allowed_values [OF example_capabilities_run example_capabilities_in]
  obtain new where
    out: "capabilities_in example_files_after_capabilities ''capabilities.json'' =
       Some (?kept @ new)" and
    each: "\<forall>c\<in>set ?kept. \<exists>k.
       model_key c = Some k \<and>
       map (\<lambda>x. (getitem x ''option_id'', getitem x ''allowed_values''))
           [x\<leftarrow>new. model_key x = Some k] =
         [(Inr (JStr ''fap_standard''), Inr (JArr [JBool True, JBool False])),
                 (Inr (JStr ''fap_gold''), Inr (JArr [JBool False, JBool True])),
                 (Inr (JStr ''fap_platinum''), Inr (JArr [JBool False, JBool True])),
                 (Inr (JStr ''fap_warranty_years''),
                  Inr (JArr [JInt 1, JInt 2, JInt 3, JInt 4, JInt 5]))]"
    by blast
  from each mem obtain k where
    k: "model_key ?c = Some k" and
    pairs: "map (\<lambda>x. (getitem x ''option_id'', getitem x ''allowed_values''))
         [x\<leftarrow>new. model_key x = Some k] =
       [(Inr (JStr ''fap_standard''), Inr (JArr [JBool True, JBool False])),
                 (Inr (JStr ''fap_gold''), Inr (JArr [JBool False, JBool True])),
                 (Inr (JStr ''fap_platinum''), Inr (JArr [JBool False, JBool True])),
                 (Inr (JStr ''fap_warranty_years''),
                  Inr (JArr [JInt 1, JInt 2, JInt 3, JInt 4, JInt 5]))]"
    by (elim ballE [of _ _ ?c]) auto
  from k key have "k = KStr ''m2''" by simp
  with out pairs have "\<exists>new.
      capabilities_in example_files_after_capabilities ''capabilities.json'' =
        Some (?kept @ new) \<and>
      map (\<lambda>x. (getitem x ''option_id'', getitem x ''allowed_values''))
          [x\<leftarrow>new. model_key x = Some (KStr ''m2'')] =
        [(Inr (JStr ''fap_standard''), Inr (JArr [JBool True, JBool False])),
                 (Inr (JStr ''fap_gold''), Inr (JArr [JBool False, JBool True])),
                 (Inr (JStr ''fap_platinum''), Inr (JArr [JBool False, JBool True])),
                 (Inr (JStr ''fap_warranty_years''),
                  Inr (JArr [JInt 1, JInt 2, JInt 3, JInt 4, JInt 5]))]"
    by (intro exI [of _ new]) simp
  with example_capabilities_run example_capabilities_in mem show ?thesis
    by (intro conjI)
qed

text \<open>
  Claim C8. After a completed run, for every capability \<open>c\<close> that remains after the
  warranty-tier filter there is a first remaining record, in array order, whose
  \<^verbatim>\<open>model_id\<close> is the same dictionary key as that of \<open>c\<close>; the four appended records
  of that model all carry the \<^verbatim>\<open>model_label\<close> of this first record, whatever labels
  later records of the model have.
\<close>

theorem first_seen_label:
  assumes "update_capabilities pf filepath files = (Inr (), files')"
    and "capabilities_in files filepath = Some cs"
    and "c \<in> set cs" and "\<not> is_warranty_cap c"
  shows "\<exists>k first model_label new.
           model_key c = Some k \<and>
           find (\<lambda>c. model_key c = Some k) [c\<leftarrow>cs. \<not> is_warranty_cap c] = Some first \<and>
           getitem first ''model_label'' = Inr model_label \<and>
           capabilities_in files' filepath = Some ([c\<leftarrow>cs. \<not> is_warranty_cap c] @ new) \<and>
           map (\<lambda>x. getitem x ''model_label'') [x\<leftarrow>new. model_key x = Some k] =
             replicate 4 (Inr model_label)"
proof -
  let ?kept = "[c\<leftarrow>cs. \<not> is_warranty_cap c]"
  from update_capabilities_run [OF assms(1,2)] obtain models where
    models: "collect_models [] ?kept = Inr models" and
    out: "capabilities_in files' filepath = Some (?kept @ new_caps models)"
    by blast
  from assms(3,4) have "c \<in> set ?kept" by simp
  from new_caps_of_model [OF models this] obtain k first model_id model_label where
    "model_key c = Some k"
    "find (\<lambda>c. model_key c = Some k) ?kept = Some first"
    "getitem first ''model_label'' = Inr model_label"
    "[x\<leftarrow>new_caps models. model_key x = Some k] = fap_caps model_id model_label"
    by blast
  moreover have "map (\<lambda>x. getitem x ''model_label'') (fap_caps model_id model_label) =
      replicate 4 (Inr model_label)"
    by (simp add: fap_caps_def numeral_eq_Suc)
  ultimately show ?thesis using out by auto
qed

theorem first_seen_label_witness:
  "update_capabilities reliable ''capabilities.json'' example_files =
     (Inr (), example_files_after_capabilities) \<and>
   example_cap ''m1'' ''Model 1'' ''size'' \<in> set example_capabilities \<and>
   find (\<lambda>c. model_key c = Some (KStr ''m1''))
     [c\<leftarrow>example_capabilities. \<not> is_warranty_cap c] =
     Some (example_cap ''m1'' ''Model One'' ''color'') \<and>
   (\<exists>new.
      capabilities_in example_files_after_capabilities ''capabilities.json'' =
        Some ([c\<leftarrow>example_capabilities. \<not> is_warranty_cap c] @ new) \<and>
      map (\<lambda>x. getitem x ''model_label'') [x\<leftarrow>new. model_key x = Some (KStr ''m1'')] =
        replicate 4 (Inr (JStr ''Model One'')))"
proof -
  let ?c = "example_cap ''m1'' ''Model 1'' ''size''"
  let ?kept = "[c\<leftarrow>example_capabilities. \<not> is_warranty_cap c]"
  have mem: "?c \<in> set example_capabilities"
    by (simp add: example_capabilities_def)
  have unrelated: "\<not> is_warranty_cap ?c"
    by (simp add: is_warranty_cap_def example_cap_def warranty_option_ids_def)
  have key: "model_key ?c = Some (KStr ''m1'')"
    by (simp add: model_key_def example_cap_def)
  have first: "find (\<lambda>c. model_key c = Some (KStr ''m1'')) ?kept =
      Some (example_cap ''m1'' ''Model One'' ''color'')"
    by (simp add: example_capabilities_def is_warranty_cap_def example_cap_def
        warranty_option_ids_def model_key_def)
  have label: "getitem (example_cap ''m1'' ''Model One'' ''color'') ''model_label'' =
      Inr (JStr ''Model One'')"
    by (simp add: example_cap_def)
  from first_seen_label [OF example_capabilities_run example_capabilities_in mem unrelated]
  obtain k first' model_label new where
    "model_key ?c = Some k"
    "find (\<lambda>c. model_key c = Some k) ?kept = Some first'"
    "getitem first' ''model_label'' = Inr model_label"
    "capabilities_in example_files_after_capabilities ''capabilities.json'' =
       Some (?kept @ new)"
    "map (\<lambda>x. getitem x ''model_label'') [x\<leftarrow>new. model_key x = Some k] =
       replicate 4 (Inr model_label)"
    by blast
  with key first label have
    "capabilities_in example_files_after_capabilities ''capabilities.json'' =
       Some (?kept @ new) \<and>
     map (\<lambda>x. getitem x ''model_label'') [x\<leftarrow>new. model_key x = Some (KStr ''m1'')] =
       replicate 4 (Inr (JStr ''Model One''))"
    by simp
  with example_capabilities_run mem first show ?thesis by blast
qed

text \<open>
  Claim C9. After any completed run of the capability injector, no record of the output
  array has the \<^verbatim>\<open>option_id\<close> fap_warranty_tier.
\<close>

theorem superseded_option_removed:
  assumes "update_capabilities pf filepath files = (Inr (), files')"
  shows "\<exists>out. capabilities_in files' filepath = Some out \<and>
           (\<forall>x\<in>set out. getitem x ''option_id'' \<noteq> Inr (JStr ''fap_warranty_tier''))"
proof -
  from update_capabilities_run_any [OF assms] obtain cs models where
    out: "capabilities_in files' filepath =
            Some ([c\<leftarrow>cs. \<not> is_warranty_cap c] @ new_caps models)"
    by blast
  have "getitem x ''option_id'' \<noteq> Inr (JStr ''fap_warranty_tier'')"
    if "x \<in> set ([c\<leftarrow>cs. \<not> is_warranty_cap c] @ new_caps models)" for x
  proof (cases "x \<in> set (new_caps models)")
    case True
    from fap_caps_cases [OF this] show ?thesis by auto
  next
    case False
    with that have "\<not> is_warranty_cap x" by simp
    then show ?thesis
      by (auto simp: is_warranty_cap_def warranty_option_ids_def)
  qed
  with out show ?thesis by blast
qed

theorem superseded_option_removed_witness:
  "update_capabilities reliable ''capabilities.json'' example_files =
     (Inr (), example_files_after_capabilities) \<and>
   (\<exists>x\<in>set example_capabilities.
      getitem x ''option_id'' = Inr (JStr ''fap_warranty_tier'')) \<and>
   (\<exists>out. capabilities_in example_files_after_capabilities ''capabilities.json'' = Some out \<and>
      (\<forall>x\<in>set out. getitem x ''option_id'' \<noteq> Inr (JStr ''fap_warranty_tier'')))"
proof -
  have "\<exists>x\<in>set example_capabilities.
      getitem x ''option_id'' = Inr (JStr ''fap_warranty_tier'')"
    by (simp add: example_capabilities_def example_cap_def)
  with superseded_option_removed [OF example_capabilities_run] example_capabilities_run
  show ?thesis by blast
qed

text \<open>
  Claim C10. If every capability of the input array has one of the five warranty option
  ids (in particular if the array is empty), nothing fails before the write: no model is
  derived, nothing is appended, and the run writes a document whose
  \<^verbatim>\<open>capabilities\<close> array is empty. When the platform lets the write through, the run
  completes and the file holds the empty array.
\<close>

theorem only_warranty_records_gives_empty:
  assumes "capabilities_in files filepath = Some cs"
    and "\<forall>c\<in>set cs. is_warranty_cap c"
  shows "\<exists>data'.
           getitem data' ''capabilities'' = Inr (JArr []) \<and>
           update_capabilities pf filepath files = dump_json pf filepath data' files \<and>
           (open_w pf filepath = None \<and> json_dump pf data' = None \<longrightarrow>
              (\<exists>files'. update_capabilities pf filepath files = (Inr (), files') \<and>
                 capabilities_in files' filepath = Some [])) \<and>
           (\<exists>files'. update_capabilities reliable filepath files = (Inr (), files') \<and>
              capabilities_in files' filepath = Some [])"
proof -
  from assms(1) obtain kvs where
    doc: "files filepath = Some (Valid_JSON (JObj kvs))" and
    caps: "map_of kvs ''capabilities'' = Some (JArr cs)"
    unfolding capabilities_in_eq_Some by blast
  have has: "\<forall>c\<in>set cs. \<exists>oid. getitem c ''option_id'' = Inr oid"
  proof
    fix c assume "c \<in> set cs"
    with assms(2) have "is_warranty_cap c" by blast
    then show "\<exists>oid. getitem c ''option_id'' = Inr oid"
      by (cases "getitem c ''option_id''") (simp_all add: is_warranty_cap_def)
  qed
  from assms(2) have kept: "[c\<leftarrow>cs. \<not> is_warranty_cap c] = []"
    by (simp add: filter_empty_conv)
  let ?data' = "JObj (dict_set kvs ''capabilities'' (JArr []))"
  have rewritten: "update_capabilities_data (JObj kvs) = Inr ?data'"
    unfolding update_capabilities_data_eq_Inr
    using caps has kept
    by (intro exI [of _ kvs] exI [of _ "JArr cs"] exI [of _ cs] exI [of _ "[]"]) simp
  have array: "getitem ?data' ''capabilities'' = Inr (JArr [])"
    by (simp add: map_of_dict_set)
  from doc have "load_json filepath files = Inr (JObj kvs)"
    by (simp add: load_json_eq_Inr)
  with rewritten have reaches:
    "update_capabilities pf filepath files = dump_json pf filepath ?data' files"
    by (simp add: update_capabilities_def)
  have completes: "\<exists>files'. update_capabilities pf filepath files = (Inr (), files') \<and>
      capabilities_in files' filepath = Some []"
    if "open_w pf filepath = None \<and> json_dump pf ?data' = None" for pf
  proof -
    from that doc rewritten have "update_capabilities pf filepath files =
        (Inr (), files(filepath \<mapsto> Valid_JSON ?data'))"
      unfolding update_capabilities_eq_Inr by blast
    moreover have
      "capabilities_in (files(filepath \<mapsto> Valid_JSON ?data')) filepath = Some []"
      by (simp add: capabilities_in_def map_of_dict_set)
    ultimately show ?thesis by blast
  qed
  have "open_w reliable filepath = None \<and> json_dump reliable ?data' = None"
    by (simp add: reliable_def)
  then have "\<exists>files'. update_capabilities reliable filepath files = (Inr (), files') \<and>
      capabilities_in files' filepath = Some []"
    by (rule completes)
  with array reaches completes [of pf] show ?thesis
    by (intro exI [of _ ?data']) blast
qed

theorem only_warranty_records_gives_empty_witness:
  "capabilities_in superseded_only_files ''capabilities.json'' =
     Some [example_cap ''m1'' ''Model One'' ''fap_warranty_tier''] \<and>
   is_warranty_cap (example_cap ''m1'' ''Model One'' ''fap_warranty_tier'') \<and>
   (\<exists>files'. update_capabilities reliable ''capabilities.json'' superseded_only_files =
        (Inr (), files') \<and>
      capabilities_in files' ''capabilities.json'' = Some [])"
proof -
  have doc: "capabilities_in superseded_only_files ''capabilities.json'' =
      Some [example_cap ''m1'' ''Model One'' ''fap_warranty_tier'']"
    by (simp add: capabilities_in_def superseded_only_files_def)
  have all: "\<forall>c\<in>set [example_cap ''m1'' ''Model One'' ''fap_warranty_tier''].
      is_warranty_cap c"
    by (simp add: is_warranty_cap_def example_cap_def warranty_option_ids_def)
  from only_warranty_records_gives_empty [OF doc all, of reliable] doc all show ?thesis
    by auto
qed

text \<open>
  Claim C6. After a completed run the output array is the input array without the entries
  of the warranty namespace, unchanged and in their order, followed by new entries that
  all lie in that namespace: capabilities with one of the five warranty option ids for
  the capability injector, rules with a \<^verbatim>\<open>fap_\<close> rule id for the rule injector.
\<close>

theorem unrelated_entries_preserved:
  "(update_capabilities pf filepath files = (Inr (), files') \<longrightarrow>
      capabilities_in files filepath = Some cs \<longrightarrow>
      (\<exists>new. capabilities_in files' filepath = Some ([c\<leftarrow>cs. \<not> is_warranty_cap c] @ new) \<and>
         (\<forall>x\<in>set new. is_warranty_cap x))) \<and>
   (add_fap_rules pf rulepath files = (Inr (), files'') \<longrightarrow>
      rules_in files rulepath = Some rs \<longrightarrow>
      (\<exists>new. rules_in files'' rulepath = Some ([r\<leftarrow>rs. \<not> is_fap_rule r] @ new) \<and>
         (\<forall>x\<in>set new. is_fap_rule x)))"
proof (intro conjI impI)
  assume "update_capabilities pf filepath files = (Inr (), files')"
    and "capabilities_in files filepath = Some cs"
  from update_capabilities_run [OF this] is_warranty_cap_new_caps
  show "\<exists>new. capabilities_in files' filepath = Some ([c\<leftarrow>cs. \<not> is_warranty_cap c] @ new) \<and>
          (\<forall>x\<in>set new. is_warranty_cap x)"
    by blast
next
  assume "add_fap_rules pf rulepath files = (Inr (), files'')"
    and "rules_in files rulepath = Some rs"
  from add_fap_rules_run [OF this] is_fap_rule_fap_rules
  show "\<exists>new. rules_in files'' rulepath = Some ([r\<leftarrow>rs. \<not> is_fap_rule r] @ new) \<and>
          (\<forall>x\<in>set new. is_fap_rule x)"
    by blast
qed

theorem unrelated_entries_preserved_witness:
  "update_capabilities reliable ''capabilities.json'' example_files =
     (Inr (), example_files_after_capabilities) \<and>
   capabilities_in example_files ''capabilities.json'' = Some example_capabilities \<and>
   add_fap_rules reliable ''rules.json'' example_files = (Inr (), example_files_after_rules) \<and>
   rules_in example_files ''rules.json'' = Some example_rules \<and>
   (\<exists>new. capabilities_in example_files_after_capabilities ''capabilities.json'' =
        Some ([c\<leftarrow>example_capabilities. \<not> is_warranty_cap c] @ new) \<and>
      (\<forall>x\<in>set new. is_warranty_cap x)) \<and>
   (\<exists>new. rules_in example_files_after_rules ''rules.json'' =
        Some ([r\<leftarrow>example_rules. \<not> is_fap_rule r] @ new) \<and>
      (\<forall>x\<in>set new. is_fap_rule x))"
  using unrelated_entries_preserved
    [where pf = reliable and filepath = "''capabilities.json''" and files = example_files
      and files' = example_files_after_capabilities and cs = example_capabilities
      and rulepath = "''rules.json''" and files'' = example_files_after_rules
      and rs = example_rules]
    example_capabilities_run example_capabilities_in example_rules_run example_rules_in
  by blast

theorem update_capabilities_idempotent_witness:
  "update_capabilities reliable ''capabilities.json'' example_files =
     (Inr (), example_files_after_capabilities) \<and>
   update_capabilities reliable ''capabilities.json'' example_files_after_capabilities =
     (Inr (), example_files_after_capabilities)"
  using update_capabilities_idempotent [OF example_capabilities_run] example_capabilities_run
  by simp

theorem add_fap_rules_idempotent_witness:
  "add_fap_rules reliable ''rules.json'' example_files = (Inr (), example_files_after_rules) \<and>
   add_fap_rules reliable ''rules.json'' example_files_after_rules =
     (Inr (), example_files_after_rules)"
  using add_fap_rules_idempotent [OF example_rules_run] example_rules_run
  by simp

lemma fap_rules_pair:
  assumes "a \<in> set tiers" and "b \<in> set tiers" and "a \<noteq> b"
  shows "length [r\<leftarrow>fap_rules. excludes a b r] = 1"
  using assms
  by (auto simp: tiers_def fap_rules_def fap_rule_def excludes_def)

lemma filter_fap_rules_out:
  "[r\<leftarrow>[r\<leftarrow>rs. \<not> is_fap_rule r] @ fap_rules. is_fap_rule r] = fap_rules"
proof -
  have "[r\<leftarrow>[r\<leftarrow>rs. \<not> is_fap_rule r]. is_fap_rule r] = []"
    by (simp add: filter_empty_conv)
  moreover have "[r\<leftarrow>fap_rules. is_fap_rule r] = fap_rules"
    by (simp add: filter_id_conv is_fap_rule_fap_rules)
  ultimately show ?thesis by simp
qed

text \<open>
  Claim C4. After a completed run of the rule injector on a document with a \<^verbatim>\<open>rules\<close>
  array, exactly six rules of the output have a \<^verbatim>\<open>rule_id\<close> starting with
  \<^verbatim>\<open>fap_\<close>, and for each ordered pair of different tiers among standard, gold and
  platinum exactly one of these six rules fires when the first tier is true and excludes
  the second with value true.
\<close>

theorem six_fap_rules:
  assumes "add_fap_rules pf filepath files = (Inr (), files')"
    and "rules_in files filepath = Some rs"
  shows "\<exists>out. rules_in files' filepath = Some out \<and>
           length [r\<leftarrow>out. is_fap_rule r] = 6 \<and>
           (\<forall>a\<in>set tiers. \<forall>b\<in>set tiers. a \<noteq> b \<longrightarrow>
              length [r\<leftarrow>[r\<leftarrow>out. is_fap_rule r]. excludes a b r] = 1)"
proof -
  let ?out = "[r\<leftarrow>rs. \<not> is_fap_rule r] @ fap_rules"
  from add_fap_rules_run [OF assms] have out: "rules_in files' filepath = Some ?out"
    by blast
  have fap: "[r\<leftarrow>?out. is_fap_rule r] = fap_rules"
    by (rule filter_fap_rules_out)
  have "length fap_rules = 6"
    by (simp add: fap_rules_def)
  with out fap fap_rules_pair show ?thesis
    by (intro exI [of _ ?out]) simp
qed

theorem six_fap_rules_witness:
  "add_fap_rules reliable ''rules.json'' example_files = (Inr (), example_files_after_rules) \<and>
   rules_in example_files ''rules.json'' = Some example_rules \<and>
   (\<exists>out. rules_in example_files_after_rules ''rules.json'' = Some out \<and>
      length [r\<leftarrow>out. is_fap_rule r] = 6 \<and>
      (\<forall>a\<in>set tiers. \<forall>b\<in>set tiers. a \<noteq> b \<longrightarrow>
         length [r\<leftarrow>[r\<leftarrow>out. is_fap_rule r]. excludes a b r] = 1))"
  using six_fap_rules [OF example_rules_run example_rules_in]
    example_rules_run example_rules_in
  by blast

text \<open>
  Claim C7 as stated fails: the file exists, is valid JSON and has a \<^verbatim>\<open>capabilities\<close>
  array, yet the run does not complete; it aborts on the missing \<^verbatim>\<open>option_id\<close> of a
  record, which is neither a read, nor a parse, nor a missing-array error. The file is
  left as it was.
\<close>

theorem abort_on_record_without_option_id:
  "capabilities_in no_option_id_files ''capabilities.json'' =
     Some [JObj [(''model_id'', JStr ''m1''), (''model_label'', JStr ''Model One'')]] \<and>
   update_capabilities reliable ''capabilities.json'' no_option_id_files =
     (Inl (KeyError ''option_id''), no_option_id_files)"
  by (simp add: capabilities_in_def no_option_id_files_def update_capabilities_def
      load_json_def update_capabilities_data_def)

lemma run_outcomes_of:
  assumes run_def: "\<And>pf filepath files. run pf filepath files =
      (case load_json filepath files of
         Inl e \<Rightarrow> (Inl e, files)
       | Inr data \<Rightarrow>
           (case step data of
              Inl e \<Rightarrow> (Inl e, files)
            | Inr data' \<Rightarrow> dump_json pf filepath data' files))"
  shows "(\<exists>data data'. files filepath = Some (Valid_JSON data) \<and> step data = Inr data' \<and>
        run pf filepath files = (Inr (), files(filepath \<mapsto> Valid_JSON data'))) \<or>
    (\<exists>e. run pf filepath files = (Inl e, files)) \<or>
    (\<exists>data data' e. files filepath = Some (Valid_JSON data) \<and> step data = Inr data' \<and>
        open_w pf filepath = None \<and> json_dump pf data' = Some e \<and>
        run pf filepath files = (Inl e, files(filepath \<mapsto> Partial_JSON)))"
proof (cases "load_json filepath files")
  case (Inl e)
  then show ?thesis by (simp add: run_def)
next
  case (Inr data)
  then have doc: "files filepath = Some (Valid_JSON data)"
    by (simp add: load_json_eq_Inr)
  show ?thesis
  proof (cases "step data")
    case (Inl e)
    with Inr show ?thesis by (simp add: run_def)
  next
    case step: (Inr data')
    show ?thesis
    proof (cases "open_w pf filepath")
      case (Some e)
      with Inr step show ?thesis by (simp add: run_def dump_json_def)
    next
      case None
      show ?thesis
      proof (cases "json_dump pf data'")
        case (Some e)
        with Inr step None doc show ?thesis
          by (simp add: run_def dump_json_def Let_def)
      next
        case dumped: None
        with Inr step None doc show ?thesis
          by (simp add: run_def dump_json_def Let_def)
      qed
    qed
  qed
qed

text \<open>
  Claim C7, amended. A run on a file ends in one of three ways. It completes, and the
  file holds the document as rewritten in memory. Or it raises an error before the file
  is opened for writing, and every file is as before the run: an error of reading or
  parsing, a missing array key, another error of the rewrite in memory (a record without
  a field that is read, a value of the wrong type), or the refusal to open the file for
  writing. Or \<^verbatim>\<open>json.dump\<close> raises an error after the file was emptied, and the file
  is left with the beginning of the new text. No error is handled: the script stops at
  the first one without printing its confirmation.
\<close>

theorem run_outcomes:
  "((\<exists>kvs old cs models.
        files filepath = Some (Valid_JSON (JObj kvs)) \<and>
        map_of kvs ''capabilities'' = Some old \<and> iter_json old = Inr cs \<and>
        collect_models [] [c\<leftarrow>cs. \<not> is_warranty_cap c] = Inr models \<and>
        update_capabilities pf filepath files =
          (Inr (), files(filepath \<mapsto> Valid_JSON (JObj (dict_set kvs ''capabilities''
             (JArr ([c\<leftarrow>cs. \<not> is_warranty_cap c] @ new_caps models))))))) \<or>
    (\<exists>e. update_capabilities pf filepath files = (Inl e, files)) \<or>
    (\<exists>data data' e. files filepath = Some (Valid_JSON data) \<and> update_capabilities_data data = Inr data' \<and>
        open_w pf filepath = None \<and> json_dump pf data' = Some e \<and>
        update_capabilities pf filepath files = (Inl e, files(filepath \<mapsto> Partial_JSON)))) \<and>
   ((\<exists>kvs old rs.
        files filepath = Some (Valid_JSON (JObj kvs)) \<and>
        map_of kvs ''rules'' = Some old \<and> iter_json old = Inr rs \<and>
        add_fap_rules pf filepath files =
          (Inr (), files(filepath \<mapsto> Valid_JSON (JObj (dict_set kvs ''rules''
             (JArr ([r\<leftarrow>rs. \<not> is_fap_rule r] @ fap_rules))))))) \<or>
    (\<exists>e. add_fap_rules pf filepath files = (Inl e, files)) \<or>
    (\<exists>data data' e. files filepath = Some (Valid_JSON data) \<and> add_fap_rules_data data = Inr data' \<and>
        open_w pf filepath = None \<and> json_dump pf data' = Some e \<and>
        add_fap_rules pf filepath files = (Inl e, files(filepath \<mapsto> Partial_JSON)))) \<and>
   (\<forall>e. load_json filepath files = Inl e \<longrightarrow>
      update_capabilities pf filepath files = (Inl e, files) \<and>
      add_fap_rules pf filepath files = (Inl e, files)) \<and>
   (\<forall>kvs. files filepath = Some (Valid_JSON (JObj kvs)) \<longrightarrow>
      (map_of kvs ''capabilities'' = None \<longrightarrow>
         update_capabilities pf filepath files = (Inl (KeyError ''capabilities''), files)) \<and>
      (map_of kvs ''rules'' = None \<longrightarrow>
         add_fap_rules pf filepath files = (Inl (KeyError ''rules''), files))) \<and>
   (\<forall>data e. files filepath = Some (Valid_JSON data) \<longrightarrow>
      (update_capabilities_data data = Inl e \<longrightarrow>
         update_capabilities pf filepath files = (Inl e, files)) \<and>
      (add_fap_rules_data data = Inl e \<longrightarrow>
         add_fap_rules pf filepath files = (Inl e, files))) \<and>
   (\<forall>data data' e. files filepath = Some (Valid_JSON data) \<longrightarrow>
      open_w pf filepath = Some e \<longrightarrow>
      (update_capabilities_data data = Inr data' \<longrightarrow>
         update_capabilities pf filepath files = (Inl e, files)) \<and>
      (add_fap_rules_data data = Inr data' \<longrightarrow>
         add_fap_rules pf filepath files = (Inl e, files))) \<and>
   (\<forall>data data' e. files filepath = Some (Valid_JSON data) \<longrightarrow>
      open_w pf filepath = None \<longrightarrow> json_dump pf data' = Some e \<longrightarrow>
      (update_capabilities_data data = Inr data' \<longrightarrow>
         update_capabilities pf filepath files =
           (Inl e, files(filepath \<mapsto> Partial_JSON))) \<and>
      (add_fap_rules_data data = Inr data' \<longrightarrow>
         add_fap_rules pf filepath files = (Inl e, files(filepath \<mapsto> Partial_JSON)))) \<and>
   (\<forall>e files'.
      update_capabilities pf ''/home/mixy/configurator/src/logic/capabilities.json'' files =
        (Inl e, files') \<longrightarrow>
      capabilities_script pf files = (Inl e, files')) \<and>
   (\<forall>e files'.
      add_fap_rules pf ''/home/mixy/configurator/src/logic/rules.json'' files =
        (Inl e, files') \<longrightarrow>
      rules_script pf files = (Inl e, files'))"
proof (intro conjI)
  show "((\<exists>kvs old cs models.
        files filepath = Some (Valid_JSON (JObj kvs)) \<and>
        map_of kvs ''capabilities'' = Some old \<and> iter_json old = Inr cs \<and>
        collect_models [] [c\<leftarrow>cs. \<not> is_warranty_cap c] = Inr models \<and>
        update_capabilities pf filepath files =
          (Inr (), files(filepath \<mapsto> Valid_JSON (JObj (dict_set kvs ''capabilities''
             (JArr ([c\<leftarrow>cs. \<not> is_warranty_cap c] @ new_caps models))))))) \<or>
    (\<exists>e. update_capabilities pf filepath files = (Inl e, files)) \<or>
    (\<exists>data data' e. files filepath = Some (Valid_JSON data) \<and> update_capabilities_data data = Inr data' \<and>
        open_w pf filepath = None \<and> json_dump pf data' = Some e \<and>
        update_capabilities pf filepath files = (Inl e, files(filepath \<mapsto> Partial_JSON))))"
    using run_outcomes_of [of update_capabilities update_capabilities_data files filepath pf]
    unfolding update_capabilities_data_eq_Inr
    by (simp add: update_capabilities_def) blast
  show "((\<exists>kvs old rs.
        files filepath = Some (Valid_JSON (JObj kvs)) \<and>
        map_of kvs ''rules'' = Some old \<and> iter_json old = Inr rs \<and>
        add_fap_rules pf filepath files =
          (Inr (), files(filepath \<mapsto> Valid_JSON (JObj (dict_set kvs ''rules''
             (JArr ([r\<leftarrow>rs. \<not> is_fap_rule r] @ fap_rules))))))) \<or>
    (\<exists>e. add_fap_rules pf filepath files = (Inl e, files)) \<or>
    (\<exists>data data' e. files filepath = Some (Valid_JSON data) \<and> add_fap_rules_data data = Inr data' \<and>
        open_w pf filepath = None \<and> json_dump pf data' = Some e \<and>
        add_fap_rules pf filepath files = (Inl e, files(filepath \<mapsto> Partial_JSON))))"
    using run_outcomes_of [of add_fap_rules add_fap_rules_data files filepath pf]
    unfolding add_fap_rules_data_eq_Inr
    by (simp add: add_fap_rules_def) blast
  show "(\<forall>e. load_json filepath files = Inl e \<longrightarrow>
      update_capabilities pf filepath files = (Inl e, files) \<and>
      add_fap_rules pf filepath files = (Inl e, files))"
    by (simp add: update_capabilities_def add_fap_rules_def)
  show "(\<forall>kvs. files filepath = Some (Valid_JSON (JObj kvs)) \<longrightarrow>
      (map_of kvs ''capabilities'' = None \<longrightarrow>
         update_capabilities pf filepath files = (Inl (KeyError ''capabilities''), files)) \<and>
      (map_of kvs ''rules'' = None \<longrightarrow>
         add_fap_rules pf filepath files = (Inl (KeyError ''rules''), files)))"
    by (simp add: update_capabilities_def add_fap_rules_def load_json_def
        update_capabilities_data_def add_fap_rules_data_def)
  show "(\<forall>data e. files filepath = Some (Valid_JSON data) \<longrightarrow>
      (update_capabilities_data data = Inl e \<longrightarrow>
         update_capabilities pf filepath files = (Inl e, files)) \<and>
      (add_fap_rules_data data = Inl e \<longrightarrow>
         add_fap_rules pf filepath files = (Inl e, files)))"
    by (simp add: update_capabilities_def add_fap_rules_def load_json_def)
  show "(\<forall>data data' e. files filepath = Some (Valid_JSON data) \<longrightarrow>
      open_w pf filepath = Some e \<longrightarrow>
      (update_capabilities_data data = Inr data' \<longrightarrow>
         update_capabilities pf filepath files = (Inl e, files)) \<and>
      (add_fap_rules_data data = Inr data' \<longrightarrow>
         add_fap_rules pf filepath files = (Inl e, files)))"
    by (simp add: update_capabilities_def add_fap_rules_def load_json_def dump_json_def)
  show "(\<forall>data data' e. files filepath = Some (Valid_JSON data) \<longrightarrow>
      open_w pf filepath = None \<longrightarrow> json_dump pf data' = Some e \<longrightarrow>
      (update_capabilities_data data = Inr data' \<longrightarrow>
         update_capabilities pf filepath files =
           (Inl e, files(filepath \<mapsto> Partial_JSON))) \<and>
      (add_fap_rules_data data = Inr data' \<longrightarrow>
         add_fap_rules pf filepath files = (Inl e, files(filepath \<mapsto> Partial_JSON))))"
    by (simp add: update_capabilities_def add_fap_rules_def load_json_def dump_json_def)
  show "(\<forall>e files'.
      update_capabilities pf ''/home/mixy/configurator/src/logic/capabilities.json'' files =
        (Inl e, files') \<longrightarrow>
      capabilities_script pf files = (Inl e, files'))"
    by (simp add: capabilities_script_def)
  show "(\<forall>e files'.
      add_fap_rules pf ''/home/mixy/configurator/src/logic/rules.json'' files =
        (Inl e, files') \<longrightarrow>
      rules_script pf files = (Inl e, files'))"
    by (simp add: rules_script_def)
qed

lemma example_capabilities_data:
  "update_capabilities_data
     (JObj [(''version'', JInt 1), (''capabilities'', JArr example_capabilities)]) =
   Inr (JObj [(''version'', JInt 1), (''capabilities'', JArr example_capabilities_after)])"
  by (simp add: update_capabilities_data_def example_capabilities_def example_cap_def
      warranty_option_ids_def example_capabilities_after_def)

theorem run_outcomes_witness:
  "update_capabilities reliable ''capabilities.json'' example_files =
     (Inr (), example_files_after_capabilities) \<and>
   update_capabilities reliable ''missing.json'' example_files =
     (Inl FileNotFoundError, example_files) \<and>
   update_capabilities reliable ''logic'' example_files =
     (Inl IsADirectoryError, example_files) \<and>
   update_capabilities reliable ''latin1.json'' example_files =
     (Inl UnicodeDecodeError, example_files) \<and>
   add_fap_rules reliable ''broken.json'' example_files =
     (Inl JSONDecodeError, example_files) \<and>
   update_capabilities reliable ''rules.json'' example_files =
     (Inl (KeyError ''capabilities''), example_files) \<and>
   add_fap_rules reliable ''capabilities.json'' example_files =
     (Inl (KeyError ''rules''), example_files) \<and>
   update_capabilities read_only ''capabilities.json'' example_files =
     (Inl PermissionError, example_files) \<and>
   update_capabilities full_disk ''capabilities.json'' example_files =
     (Inl OSError, example_files(''capabilities.json'' \<mapsto> Partial_JSON)) \<and>
   capabilities_script reliable example_files = (Inl FileNotFoundError, example_files) \<and>
   rules_script reliable example_files = (Inl FileNotFoundError, example_files)"
proof -
  have missing: "load_json ''missing.json'' example_files = Inl FileNotFoundError"
    and logic: "load_json ''logic'' example_files = Inl IsADirectoryError"
    and latin1: "load_json ''latin1.json'' example_files = Inl UnicodeDecodeError"
    and broken: "load_json ''broken.json'' example_files = Inl JSONDecodeError"
    and path1: "load_json ''/home/mixy/configurator/src/logic/capabilities.json''
        example_files = Inl FileNotFoundError"
    and path2: "load_json ''/home/mixy/configurator/src/logic/rules.json''
        example_files = Inl FileNotFoundError"
    by (simp_all add: load_json_def example_files_def)
  have rules: "example_files ''rules.json'' =
      Some (Valid_JSON (JObj [(''rules'', JArr example_rules)]))"
    and caps: "example_files ''capabilities.json'' =
      Some (Valid_JSON (JObj [(''version'', JInt 1),
        (''capabilities'', JArr example_capabilities)]))"
    by (simp_all add: example_files_def)
  have no_caps: "map_of [(''rules'', JArr example_rules)] ''capabilities'' = None"
    and no_rules: "map_of [(''version'', JInt 1),
        (''capabilities'', JArr example_capabilities)] ''rules'' = None"
    by simp_all
  have refused: "open_w read_only ''capabilities.json'' = Some PermissionError"
    by (simp add: read_only_def)
  have opened: "open_w full_disk ''capabilities.json'' = None"
    and full: "json_dump full_disk
        (JObj [(''version'', JInt 1), (''capabilities'', JArr example_capabilities_after)]) =
      Some OSError"
    by (simp_all add: full_disk_def)
  note at = run_outcomes [where files = example_files]
  from at [where pf = reliable and filepath = "''missing.json''"] missing
  have 1: "update_capabilities reliable ''missing.json'' example_files =
      (Inl FileNotFoundError, example_files)"
    by blast
  from at [where pf = reliable and filepath = "''logic''"] logic
  have 2: "update_capabilities reliable ''logic'' example_files =
      (Inl IsADirectoryError, example_files)"
    by blast
  from at [where pf = reliable and filepath = "''latin1.json''"] latin1
  have 3: "update_capabilities reliable ''latin1.json'' example_files =
      (Inl UnicodeDecodeError, example_files)"
    by blast
  from at [where pf = reliable and filepath = "''broken.json''"] broken
  have 4: "add_fap_rules reliable ''broken.json'' example_files =
      (Inl JSONDecodeError, example_files)"
    by blast
  from at [where pf = reliable and filepath = "''rules.json''"] rules no_caps
  have 5: "update_capabilities reliable ''rules.json'' example_files =
      (Inl (KeyError ''capabilities''), example_files)"
    by blast
  from at [where pf = reliable and filepath = "''capabilities.json''"] caps no_rules
  have 6: "add_fap_rules reliable ''capabilities.json'' example_files =
      (Inl (KeyError ''rules''), example_files)"
    by blast
  from at [where pf = read_only and filepath = "''capabilities.json''"] caps refused
    example_capabilities_data
  have 7: "update_capabilities read_only ''capabilities.json'' example_files =
      (Inl PermissionError, example_files)"
    by blast
  from at [where pf = full_disk and filepath = "''capabilities.json''"] caps opened full
    example_capabilities_data
  have 8: "update_capabilities full_disk ''capabilities.json'' example_files =
      (Inl OSError, example_files(''capabilities.json'' \<mapsto> Partial_JSON))"
    by blast
  from at [where pf = reliable
      and filepath = "''/home/mixy/configurator/src/logic/capabilities.json''"] path1
  have 9: "capabilities_script reliable example_files =
      (Inl FileNotFoundError, example_files)"
    by blast
  from at [where pf = reliable
      and filepath = "''/home/mixy/configurator/src/logic/rules.json''"] path2
  have 10: "rules_script reliable example_files = (Inl FileNotFoundError, example_files)"
    by blast
  from example_capabilities_run 1 2 3 4 5 6 7 8 9 10 show ?thesis by (intro conjI)
qed

end
